theory Spec2Isabelle
  imports Main "HOL-Library.Finite_Map"
begin

section \<open>Formatting verbs of fmt.Sprintf used by the package\<close>

text \<open>
  Go strings are byte sequences; they are modelled as \<open>string\<close> (lists of 8-bit
  characters). The lengths and indices the formatted numbers come from (\<open>len\<close> of a
  slice or map, a loop counter starting at 1) are non-negative and far below the range
  of Go's 64-bit \<open>int\<close>, so they are modelled as \<open>nat\<close>.
\<close>

text \<open>The verb \<open>%d\<close> on a non-negative integer: its decimal digits, no padding.\<close>

fun decimal :: "nat \<Rightarrow> string" where
  "decimal n =
     (if n < 10 then [''0123456789'' ! n]
      else decimal (n div 10) @ [''0123456789'' ! (n mod 10)])"

declare decimal.simps [simp del]

text \<open>The verb \<open>%04d\<close> on a non-negative integer: zero-padded on the left to width 4,
  longer numbers printed in full.\<close>

definition decimal04 :: "nat \<Rightarrow> string" where
  "decimal04 n = replicate (4 - length (decimal n)) (CHR ''0'') @ decimal n"

text \<open>The number a string of decimal digits stands for: the inverse of both verbs,
  which is why they yield different strings for different numbers.\<close>

definition digitsValue :: "string \<Rightarrow> nat" where
  "digitsValue s = foldl (\<lambda>a c. 10 * a + (of_char c - 48)) 0 s"

section \<open>Library functions on paths and strings\<close>

text \<open>
  The functions of Go's standard library that epub.go calls, written out for
  slash-separated paths (on Unix \<open>path/filepath\<close> agrees with \<open>path\<close>).
\<close>

text \<open>\<open>filepath.Base\<close>: the last element of the path, trailing slashes dropped first;
  \<open>.\<close> for the empty path and \<open>/\<close> for a path of slashes only.\<close>

definition Base :: "string \<Rightarrow> string" where
  "Base path =
     (if path = [] then ''.''
      else
        let stripped = rev (dropWhile (\<lambda>c. c = CHR ''/'') (rev path));
            elem = rev (takeWhile (\<lambda>c. c \<noteq> CHR ''/'') (rev stripped))
        in if elem = [] then ''/'' else elem)"

text \<open>\<open>filepath.Ext\<close>: the suffix of the last element that starts at its last dot,
  empty when that element has no dot.\<close>

definition Ext :: "string \<Rightarrow> string" where
  "Ext path =
     (let elem = takeWhile (\<lambda>c. c \<noteq> CHR ''/'') (rev path)
      in if CHR ''.'' \<in> set elem
         then CHR ''.'' # rev (takeWhile (\<lambda>c. c \<noteq> CHR ''.'') elem)
         else [])"

text \<open>
  \<open>strings.ToLower\<close>. On a string of ASCII bytes only, the library replaces each
  upper-case letter by the lower-case letter at the same place of the alphabet, byte by
  byte. On a string with a byte from 128 on it returns \<open>strings.Map(unicode.ToLower, s)\<close>,
  which decodes the runes and maps them by the case tables of the standard library's
  \<open>unicode\<close> package. Those tables are not modelled: \<open>unicodeToLower\<close> stands for that
  result, as a function of the string, and what is proved below holds for every such
  function.
\<close>

definition ToLower :: "(string \<Rightarrow> string) \<Rightarrow> string \<Rightarrow> string" where
  "ToLower unicodeToLower s =
     (if list_all (\<lambda>c. of_char c < (128::nat)) s
      then map (\<lambda>c. case map_of (zip ''ABCDEFGHIJKLMNOPQRSTUVWXYZ''
                                     ''abcdefghijklmnopqrstuvwxyz'') c of
                      None \<Rightarrow> c
                    | Some l \<Rightarrow> l) s
      else unicodeToLower s)"

text \<open>\<open>utf8.ValidString\<close>: the well-formed byte sequences of UTF-8 (no overlong
  forms, no surrogates, nothing above U+10FFFF).\<close>

definition between :: "nat \<Rightarrow> char \<Rightarrow> nat \<Rightarrow> bool" where
  "between lo c hi = (lo \<le> of_char c \<and> of_char c \<le> hi)"

fun ValidString :: "string \<Rightarrow> bool" where
  "ValidString [] = True"
| "ValidString (c # cs) =
     (if between 0 c 127 then ValidString cs
      else if between 194 c 223 then
        (case cs of
           c1 # r \<Rightarrow> between 128 c1 191 \<and> ValidString r
         | _ \<Rightarrow> False)
      else if between 224 c 239 then
        (case cs of
           c1 # c2 # r \<Rightarrow>
             between (if of_char c = (224::nat) then 160 else 128) c1
                     (if of_char c = (237::nat) then 159 else 191)
             \<and> between 128 c2 191 \<and> ValidString r
         | _ \<Rightarrow> False)
      else if between 240 c 244 then
        (case cs of
           c1 # c2 # c3 # r \<Rightarrow>
             between (if of_char c = (240::nat) then 144 else 128) c1
                     (if of_char c = (244::nat) then 143 else 191)
             \<and> between 128 c2 191 \<and> between 128 c3 191 \<and> ValidString r
         | _ \<Rightarrow> False)
      else False)"

text \<open>The elements of a path: the pieces between its slashes (\<open>strings.Split\<close> on
  \<open>/\<close>; a path without a slash is its own single element).\<close>

fun splitSlash :: "string \<Rightarrow> string list" where
  "splitSlash [] = [[]]"
| "splitSlash (c # cs) =
     (if c = CHR ''/'' then [] # splitSlash cs
      else (c # hd (splitSlash cs)) # tl (splitSlash cs))"

text \<open>\<open>strings.Join\<close> with separator \<open>/\<close>.\<close>

fun joinSlash :: "string list \<Rightarrow> string" where
  "joinSlash [] = []"
| "joinSlash [e] = e"
| "joinSlash (e # es) = e @ ''/'' @ joinSlash es"

text \<open>\<open>fs.ValidPath\<close>: valid UTF-8, and either the name \<open>.\<close> or a path none of whose
  elements is empty, \<open>.\<close> or \<open>..\<close>.\<close>

definition ValidPath :: "string \<Rightarrow> bool" where
  "ValidPath name =
     (ValidString name \<and>
      (name = ''.'' \<or> list_all (\<lambda>elem. elem \<noteq> [] \<and> elem \<noteq> ''.'' \<and> elem \<noteq> ''..'')
                         (splitSlash name)))"

text \<open>
  \<open>path.Clean\<close>, element by element. The library scans the bytes and writes the result
  into a buffer; what it does per element is: drop an empty element and \<open>.\<close>; on \<open>..\<close>
  remove the last element written if there is one that is not itself \<open>..\<close>, otherwise
  write \<open>..\<close> when the path is not rooted and drop it when it is; write any other
  element. \<open>out\<close> holds the elements written so far, the last one first.
\<close>

fun cleanElems :: "bool \<Rightarrow> string list \<Rightarrow> string list \<Rightarrow> string list" where
  "cleanElems rooted [] out = rev out"
| "cleanElems rooted (e # es) out =
     (if e = [] \<or> e = ''.'' then cleanElems rooted es out
      else if e = ''..'' then
        (case out of
           [] \<Rightarrow> if rooted then cleanElems rooted es [] else cleanElems rooted es [''..'']
         | written # below \<Rightarrow>
             if written = ''..'' then cleanElems rooted es (''..'' # out)
             else cleanElems rooted es below)
      else cleanElems rooted es (e # out))"

definition Clean :: "string \<Rightarrow> string" where
  "Clean path =
     (if path = [] then ''.''
      else
        let rooted = (hd path = CHR ''/'');
            out = cleanElems rooted (splitSlash path) []
        in if rooted then CHR ''/'' # joinSlash out
           else if out = [] then ''.'' else joinSlash out)"

text \<open>\<open>path.Join\<close>: the elements from the first non-empty one on, joined by slashes and
  cleaned; the empty string when all are empty.\<close>

definition Join :: "string list \<Rightarrow> string" where
  "Join elem =
     (let es = dropWhile (\<lambda>e. e = []) elem
      in if es = [] then [] else Clean (joinSlash es))"

text \<open>
  Three notions to speak about cleaned paths: an element that \<open>path.Clean\<close> keeps as it
  is (\<open>plainElem\<close>), an element that it may have written (\<open>writtenElem\<close>), and, for the
  elements written so far with the last one first, that the \<open>..\<close> elements lie below all
  others (\<open>dotsBelow\<close>).
\<close>

definition plainElem :: "string \<Rightarrow> bool" where
  "plainElem elem = (elem \<noteq> [] \<and> elem \<noteq> ''.'' \<and> elem \<noteq> ''..'')"

definition writtenElem :: "string \<Rightarrow> bool" where
  "writtenElem elem = (elem \<noteq> [] \<and> elem \<noteq> ''.'' \<and> CHR ''/'' \<notin> set elem)"

definition dotsBelow :: "string list \<Rightarrow> bool" where
  "dotsBelow out = list_all (\<lambda>el. el = ''..'') (dropWhile (\<lambda>el. el \<noteq> ''..'') out)"

section \<open>The package document (pkg.go)\<close>

definition SchemeMARCRelators :: string where "SchemeMARCRelators = ''marc:relators''"
definition SchemeONIXCodeList5 :: string where "SchemeONIXCodeList5 = ''onix:codelist5''"
definition SchemeXSDString :: string where "SchemeXSDString = ''xsd:string''"

definition PropertyRole :: string where "PropertyRole = ''role''"
definition PropertyIdentifierType :: string where "PropertyIdentifierType = ''identifier-type''"
definition PropertyModified :: string where "PropertyModified = ''dcterms:modified''"

definition PropertyRoleAuthor :: string where "PropertyRoleAuthor = ''aut''"
definition PropertyRoleTranslator :: string where "PropertyRoleTranslator = ''trl''"
definition PropertyIdentifierTypeUUID :: string where "PropertyIdentifierTypeUUID = ''uuid''"

definition pkgCreatorID :: string where "pkgCreatorID = ''creator''"
definition pkgPublisherID :: string where "pkgPublisherID = ''publisher''"
definition pkgIdentifierID :: string where "pkgIdentifierID = ''pub-id''"
definition xmlnsDc :: string where "xmlnsDc = ''http://purl.org/dc/elements/1.1/''"

text \<open>
  The structs of pkg.go, field by field. The \<open>XMLName\<close> fields and the struct tags only
  steer the XML encoder and are left out. Several structs have fields \<open>ID\<close> and
  \<open>Data\<close>; they are told apart by the record's name (\<open>PkgCreator.ID\<close>).
\<close>

record PkgCreator =
  ID :: string
  Data :: string

record PkgContributor =
  ID :: string
  Data :: string

record PkgIdentifier =
  ID :: string
  Data :: string

record PkgItem =
  ID :: string
  Href :: string
  MediaType :: string
  Properties :: string

record PkgItemref =
  Idref :: string

record PkgMeta =
  Refines :: string
  Property :: string
  Scheme :: string
  ID :: string
  Data :: string
  Name :: string
  Content :: string

record PkgMetadata =
  XmlnsDc :: string
  Identifier :: "PkgIdentifier list"
  Title :: string
  Language :: string
  Description :: string
  Publisher :: string
  Source :: string
  Date :: string
  Subject :: "string list"
  Creator :: "PkgCreator list"
  Contributor :: "PkgContributor list"
  Meta :: "PkgMeta list"

record PkgSpine =
  Items :: "PkgItemref list"
  Toc :: string
  Ppd :: string

record PkgRoot =
  UniqueIdentifier :: string
  Version :: string
  Metadata :: PkgMetadata
  ManifestItems :: "PkgItem list"
  Spine :: PkgSpine

record Pkg =
  xml :: PkgRoot

text \<open>
  \<open>NewPkg\<close> builds the root with \<open>XmlnsDc\<close> set and then decodes \<open>pkgFileTemplate\<close> into
  it. The template gives the attributes \<open>unique-identifier="pub-id"\<close>, \<open>version="3.0"\<close>
  and \<open>toc="ncx"\<close>, empty title, language and description, and no manifest or spine
  item, creator, contributor or meta element. The decoder is Go's encoding/xml, not
  code of this package: what it leaves in \<open>Metadata.Identifier\<close> for the template's
  empty \<open><dc:identifier id="pub-id">\<close> element under the tag \<open>xml:"dc:identifier"\<close> is
  the parameter \<open>decoded\<close> (the empty list, or the single entry with id \<open>pub-id\<close> and no
  data).
\<close>

definition NewPkg :: "PkgIdentifier list \<Rightarrow> Pkg" where
  "NewPkg decoded =
     \<lparr>xml =
        \<lparr>UniqueIdentifier = ''pub-id'',
         Version = ''3.0'',
         Metadata =
           \<lparr>XmlnsDc = xmlnsDc, Identifier = decoded, Title = [], Language = [],
            Description = [], Publisher = [], Source = [], Date = [], Subject = [],
            Creator = [], Contributor = [], Meta = []\<rparr>,
         ManifestItems = [],
         Spine = \<lparr>Items = [], Toc = ''ncx'', Ppd = []\<rparr>\<rparr>\<rparr>"

text \<open>
  The loop of \<open>updateMeta\<close>: the index of the first element of \<open>a\<close> that equals \<open>m\<close>
  (Go's \<open>==\<close> on the struct compares all seven fields), counted from \<open>i\<close>, or \<open>-1\<close>.
\<close>

fun indexToReplace :: "PkgMeta list \<Rightarrow> PkgMeta \<Rightarrow> int \<Rightarrow> int" where
  "indexToReplace [] m i = - 1"
| "indexToReplace (meta # a) m i = (if meta = m then i else indexToReplace a m (i + 1))"

definition updateMeta :: "PkgMeta list \<Rightarrow> PkgMeta \<Rightarrow> PkgMeta list" where
  "updateMeta a m =
     (let ix = (if length a > 0 then indexToReplace a m 0 else - 1)
      in if ix = - 1 then a @ [m] else a[nat ix := m])"

text \<open>
  A method of \<open>*Pkg\<close> mutates the package in place; here it returns the new package.
  An assignment to \<open>p.xml.Metadata.F\<close> is the nested record update
  \<open>xml_update (Metadata_update (F_update \<dots>))\<close>.
\<close>

definition AddAuthor :: "Pkg \<Rightarrow> string \<Rightarrow> string \<Rightarrow> Pkg" where
  "AddAuthor p author role =
     (let id = pkgCreatorID @ decimal (length (Creator (Metadata (xml p))));
          p1 = xml_update (Metadata_update (Creator_update (\<lambda>c. c @
                 [\<lparr>PkgCreator.ID = id, PkgCreator.Data = author\<rparr>]))) p;
          meta = \<lparr>Refines = ''#'' @ id, Property = PropertyRole,
                  Scheme = SchemeMARCRelators, PkgMeta.ID = id, PkgMeta.Data = role,
                  Name = [], Content = []\<rparr>
      in xml_update (Metadata_update (Meta_update (\<lambda>a. updateMeta a meta))) p1)"

definition AddContributor :: "Pkg \<Rightarrow> string \<Rightarrow> string \<Rightarrow> Pkg" where
  "AddContributor p author role =
     (let id = pkgCreatorID @ decimal (length (Creator (Metadata (xml p))));
          p1 = xml_update (Metadata_update (Creator_update (\<lambda>c. c @
                 [\<lparr>PkgCreator.ID = id, PkgCreator.Data = author\<rparr>]))) p;
          meta = \<lparr>Refines = ''#'' @ id, Property = PropertyRole,
                  Scheme = SchemeMARCRelators, PkgMeta.ID = id, PkgMeta.Data = role,
                  Name = [], Content = []\<rparr>
      in xml_update (Metadata_update (Meta_update (\<lambda>a. updateMeta a meta))) p1)"


definition AddCustomMeta :: "Pkg \<Rightarrow> string \<Rightarrow> string \<Rightarrow> Pkg" where
  "AddCustomMeta p name content =
     (let meta = \<lparr>Refines = [], Property = [], Scheme = [], PkgMeta.ID = [],
                  PkgMeta.Data = [], Name = name, Content = content\<rparr>
      in xml_update (Metadata_update (Meta_update (\<lambda>a. updateMeta a meta))) p)"

definition AddIdentifier :: "Pkg \<Rightarrow> string \<Rightarrow> string \<Rightarrow> string \<Rightarrow> Pkg" where
  "AddIdentifier p identifier typeSchema typeContent =
     (let id = pkgCreatorID @ decimal (length (Creator (Metadata (xml p))));
          p1 = xml_update (Metadata_update (Identifier_update (\<lambda>c. c @
                 [\<lparr>PkgIdentifier.ID = id, PkgIdentifier.Data = identifier\<rparr>]))) p;
          meta = \<lparr>Refines = ''#'' @ id, Property = PropertyIdentifierType,
                  Scheme = typeSchema, PkgMeta.ID = id, PkgMeta.Data = typeContent,
                  Name = [], Content = []\<rparr>
      in xml_update (Metadata_update (Meta_update (\<lambda>a. updateMeta a meta))) p1)"

definition SetLang :: "Pkg \<Rightarrow> string \<Rightarrow> Pkg" where
  "SetLang p lang = xml_update (Metadata_update (Language_update (\<lambda>_. lang))) p"

definition SetModified :: "Pkg \<Rightarrow> string \<Rightarrow> Pkg" where
  "SetModified p timestamp =
     (let meta = \<lparr>Refines = [], Property = PropertyModified, Scheme = [],
                  PkgMeta.ID = [], PkgMeta.Data = timestamp, Name = [], Content = []\<rparr>
      in xml_update (Metadata_update (Meta_update (\<lambda>a. updateMeta a meta))) p)"

definition Pkg_SetTitle :: "Pkg \<Rightarrow> string \<Rightarrow> Pkg" where
  "Pkg_SetTitle p title = xml_update (Metadata_update (Title_update (\<lambda>_. title))) p"

section \<open>The publication (epub.go)\<close>

text \<open>
  The two error types of epub.go. \<open>FilenameAlreadyUsedError\<close> carries the filename,
  \<open>FileRetrievalError\<close> the source and the underlying error (its message).
\<close>

datatype error =
  FilenameAlreadyUsedError string
| FileRetrievalError string string

definition CSSFolderName :: string where "CSSFolderName = ''css''"
definition FontFolderName :: string where "FontFolderName = ''fonts''"
definition ImageFolderName :: string where "ImageFolderName = ''images''"
definition VideoFolderName :: string where "VideoFolderName = ''videos''"

text \<open>
  The format strings \<open>"css%04d%s"\<close>, \<open>"font%04d%s"\<close>, \<open>"image%04d%s"\<close>, \<open>"video%04d%s"\<close>
  and \<open>"section%04d.xhtml"\<close>, each as the function \<open>fmt.Sprintf\<close> computes from it.
\<close>

definition cssFileFormat :: "nat \<Rightarrow> string \<Rightarrow> string" where
  "cssFileFormat n ext = ''css'' @ decimal04 n @ ext"

definition fontFileFormat :: "nat \<Rightarrow> string \<Rightarrow> string" where
  "fontFileFormat n ext = ''font'' @ decimal04 n @ ext"

definition imageFileFormat :: "nat \<Rightarrow> string \<Rightarrow> string" where
  "imageFileFormat n ext = ''image'' @ decimal04 n @ ext"

definition videoFileFormat :: "nat \<Rightarrow> string \<Rightarrow> string" where
  "videoFileFormat n ext = ''video'' @ decimal04 n @ ext"

definition sectionFileFormat :: "nat \<Rightarrow> string" where
  "sectionFileFormat n = ''section'' @ decimal04 n @ ''.xhtml''"




definition defaultEpubLang :: string where "defaultEpubLang = ''en''"
definition urnUUIDPrefix :: string where "urnUUIDPrefix = ''urn:uuid:''"

record epubCover =
  cssFilename :: string
  cssTempFile :: string
  imageFilename :: string
  xhtmlFilename :: string

text \<open>
  Modelled from the spec: the content document \<open>xhtml\<close> of a section and its
  operations \<open>newXhtml\<close>, \<open>setTitle\<close> and \<open>setCSS\<close> (xhtml.go is not among the sources).
  The spec gives it a body, a title and a stylesheet path, the last two set after
  construction.
\<close>

record xhtml =
  bodyMarkup :: string
  title :: string
  stylesheetPath :: string

definition newXhtml :: "string \<Rightarrow> xhtml" where
  "newXhtml body = \<lparr>bodyMarkup = body, title = [], stylesheetPath = []\<rparr>"

definition setTitle :: "xhtml \<Rightarrow> string \<Rightarrow> xhtml" where
  "setTitle x t = x\<lparr>title := t\<rparr>"

definition setCSS :: "xhtml \<Rightarrow> string \<Rightarrow> xhtml" where
  "setCSS x path = x\<lparr>stylesheetPath := path\<rparr>"

text \<open>
  Modelled from the spec: the table of contents \<open>toc\<close> with \<open>newToc\<close> and its title
  setter (toc.go is not among the sources): a title and the ordered entries, each a
  label and a target path.
\<close>

record toc =
  tocTitle :: string
  entries :: "(string \<times> string) list"

definition newToc :: toc where
  "newToc = \<lparr>tocTitle = [], entries = []\<rparr>"

definition toc_setTitle :: "toc \<Rightarrow> string \<Rightarrow> toc" where
  "toc_setTitle t s = t\<lparr>tocTitle := s\<rparr>"

record epubSection =
  filename :: string
  xhtml :: xhtml

text \<open>
  The \<open>Epub\<close> struct. The embedded mutex is left out (every operation is modelled as it
  runs under the lock, one at a time); the embedded HTTP client only reaches
  \<open>checkMedia\<close>, which is a parameter below. A Go map from filenames to sources is a
  finite map.
\<close>

record Epub =
  cover :: epubCover
  css :: "(string, string) fmap"
  fonts :: "(string, string) fmap"
  images :: "(string, string) fmap"
  videos :: "(string, string) fmap"
  lang :: string
  desc :: string
  ppd :: string
  Pkg :: Pkg
  sections :: "epubSection list"
  toc :: toc

definition SetTitle :: "Epub \<Rightarrow> string \<Rightarrow> Epub" where
  "SetTitle e t = e\<lparr>Pkg := Pkg_SetTitle (Pkg e) t, toc := toc_setTitle (toc e) t\<rparr>"

text \<open>
  \<open>NewEpub\<close>. \<open>uuid\<close> is the string of the random UUID that \<open>uuid.NewV4\<close> returns, and
  \<open>decoded\<close> is passed on to \<open>NewPkg\<close>.
\<close>

definition NewEpub :: "PkgIdentifier list \<Rightarrow> string \<Rightarrow> string \<Rightarrow> Epub" where
  "NewEpub decoded uuid t =
     (let e = \<lparr>cover = \<lparr>cssFilename = [], cssTempFile = [], imageFilename = [],
                        xhtmlFilename = []\<rparr>,
               css = fmempty, fonts = fmempty, images = fmempty, videos = fmempty,
               lang = [], desc = [], ppd = [],
               Pkg = NewPkg decoded, sections = [], toc = newToc\<rparr>;
          e = e\<lparr>Pkg := AddIdentifier (Pkg e) (urnUUIDPrefix @ uuid) SchemeXSDString
                          PropertyIdentifierTypeUUID\<rparr>;
          e = e\<lparr>Pkg := SetLang (Pkg e) defaultEpubLang\<rparr>
      in SetTitle e t)"

text \<open>
  \<open>addMedia\<close>. \<open>checkMedia\<close> stands for \<open>grabber{client}.checkMedia\<close>, a function of this
  package that is not among the sources: it gets the source only and returns an error
  (\<open>Some\<close> of its message) or nil (\<open>None\<close>). \<open>unicodeToLower\<close> is what \<open>ToLower\<close>
  needs for an extension that is not ASCII. The map is passed in and the map after the
  call is returned beside the result, also when the result is an error.
  \<open>internalFilenameFor\<close> is the block that settles the internal filename (lines 394 to
  406): the requested name if there is one, else the base name of the source, else a
  generated name numbered by the size of the map plus one.
\<close>

definition internalFilenameFor ::
  "(string \<Rightarrow> string) \<Rightarrow> string \<Rightarrow> string \<Rightarrow> (nat \<Rightarrow> string \<Rightarrow> string)
     \<Rightarrow> (string, string) fmap \<Rightarrow> string" where
  "internalFilenameFor unicodeToLower source internalFilename mediaFileFormat mediaMap =
     (if internalFilename = [] then
        (let base = Base source;
             ok = (fmlookup mediaMap base \<noteq> None)
         in if (length base > 255 \<or> \<not> ValidPath base) \<or> ok
            then mediaFileFormat (fcard (fmdom mediaMap) + 1) (ToLower unicodeToLower (Ext source))
            else base)
      else internalFilename)"

definition addMedia ::
  "(string \<Rightarrow> string option) \<Rightarrow> (string \<Rightarrow> string) \<Rightarrow> string \<Rightarrow> string
     \<Rightarrow> (nat \<Rightarrow> string \<Rightarrow> string) \<Rightarrow> string
     \<Rightarrow> (string, string) fmap \<Rightarrow> (error + string) \<times> (string, string) fmap" where
  "addMedia checkMedia unicodeToLower source internalFilename mediaFileFormat mediaFolderName
     mediaMap =
     (case checkMedia source of
        Some err \<Rightarrow> (Inl (FileRetrievalError source err), mediaMap)
      | None \<Rightarrow>
          (let name = internalFilenameFor unicodeToLower source internalFilename
                        mediaFileFormat mediaMap
           in if fmlookup mediaMap name \<noteq> None
              then (Inl (FilenameAlreadyUsedError name), mediaMap)
              else (Inr (Join [''..'', mediaFolderName, name]),
                    fmupd name source mediaMap)))"



definition AddFont ::
  "(string \<Rightarrow> string option) \<Rightarrow> (string \<Rightarrow> string) \<Rightarrow> Epub \<Rightarrow> string \<Rightarrow> string
     \<Rightarrow> (error + string) \<times> Epub" where
  "AddFont checkMedia unicodeToLower e source internalFilename =
     (let r = addMedia checkMedia unicodeToLower source internalFilename fontFileFormat
                FontFolderName (fonts e)
      in (fst r, e\<lparr>fonts := snd r\<rparr>))"


definition AddVideo ::
  "(string \<Rightarrow> string option) \<Rightarrow> (string \<Rightarrow> string) \<Rightarrow> Epub \<Rightarrow> string \<Rightarrow> string
     \<Rightarrow> (error + string) \<times> Epub" where
  "AddVideo checkMedia unicodeToLower e source internalFilename =
     (let r = addMedia checkMedia unicodeToLower source internalFilename videoFileFormat
                VideoFolderName (videos e)
      in (fst r, e\<lparr>videos := snd r\<rparr>))"

subsection \<open>Sections\<close>

lemma digit_code: "d < 10 \<Longrightarrow> of_char (''0123456789'' ! d) = (48 + d :: nat)"
proof -
  assume "d < 10"
  then consider "d = 0" | "d = 1" | "d = 2" | "d = 3" | "d = 4" | "d = 5" | "d = 6"
    | "d = 7" | "d = 8" | "d = 9" by atomize_elim arith
  then show ?thesis by cases simp_all
qed

lemma digitsValue_snoc: "digitsValue (s @ [c]) = 10 * digitsValue s + (of_char c - 48)"
  by (simp add: digitsValue_def)

lemma digitsValue_decimal: "digitsValue (decimal n) = n"
proof (induction n rule: decimal.induct)
  case (1 n)
  show ?case
  proof (cases "n < 10")
    case True
    then show ?thesis
      by (subst decimal.simps) (simp add: digitsValue_def digit_code)
  next
    case False
    then have "digitsValue (decimal (n div 10)) = n div 10" using 1 by simp
    then show ?thesis using False
      by (subst decimal.simps) (simp add: digitsValue_snoc digit_code)
  qed
qed

lemma digitsValue_zeros: "digitsValue (replicate k (CHR ''0'') @ s) = digitsValue s"
proof -
  have "foldl (\<lambda>a c. 10 * a + (of_char c - 48)) 0 (replicate k (CHR ''0'')) = (0::nat)"
    by (induction k) simp_all
  then show ?thesis by (simp add: digitsValue_def)
qed

lemma digitsValue_decimal04: "digitsValue (decimal04 n) = n"
  by (simp add: decimal04_def digitsValue_zeros digitsValue_decimal)

lemma decimal04_inj: "decimal04 m = decimal04 n \<Longrightarrow> m = n"
  by (metis digitsValue_decimal04)

lemma sectionFileFormat_inj: "sectionFileFormat m = sectionFileFormat n \<Longrightarrow> m = n"
  by (simp add: sectionFileFormat_def decimal04_inj)

text \<open>
  The loop of \<open>addSection\<close> that generates a filename (lines 263 to 272), entered with
  \<open>index = 1\<close>: format the index, scan all sections for that name, and on a match go on
  with the next index. It ends because different indices give different names and
  the sections are finitely many.
\<close>

function generateSectionFilename :: "epubSection list \<Rightarrow> nat \<Rightarrow> string" where
  "generateSectionFilename ss index =
     (let internalFilename = sectionFileFormat index
      in if internalFilename \<in> set (map filename ss)
         then generateSectionFilename ss (index + 1)
         else internalFilename)"
  by pat_completeness auto

termination
proof (relation "measure (\<lambda>(ss, index).
         card {i. index \<le> i \<and> sectionFileFormat i \<in> set (map filename ss)})")
  show "wf (measure (\<lambda>(ss, index).
         card {i. index \<le> i \<and> sectionFileFormat i \<in> set (map filename ss)}))"
    by simp
next
  fix ss :: "epubSection list" and index :: nat and x :: string
  assume x: "x = sectionFileFormat index" and mem: "x \<in> set (map filename ss)"
  let ?A = "\<lambda>k. {i. k \<le> i \<and> sectionFileFormat i \<in> set (map filename ss)}"
  have fin: "finite (?A index)"
  proof -
    have "inj sectionFileFormat" by (auto intro: injI sectionFileFormat_inj)
    then have "finite (sectionFileFormat -` set (map filename ss))"
      by (intro finite_vimageI) simp_all
    moreover have "?A index \<subseteq> sectionFileFormat -` set (map filename ss)" by auto
    ultimately show ?thesis by (rule rev_finite_subset)
  qed
  have "index \<in> ?A index" and "index \<notin> ?A (index + 1)" and "?A (index + 1) \<subseteq> ?A index"
    using x mem by auto
  then have "?A (index + 1) \<subset> ?A index" by blast
  then have "card (?A (index + 1)) < card (?A index)"
    using fin by (rule psubset_card_mono[rotated])
  then show "((ss, index + 1), (ss, index)) \<in> measure (\<lambda>(ss, index).
         card {i. index \<le> i \<and> sectionFileFormat i \<in> set (map filename ss)})"
    by simp
qed

declare generateSectionFilename.simps [simp del]

text \<open>
  \<open>addSection\<close>: the section list is in the publication \<open>e\<close>; the result is the pair of
  what the Go function returns and the publication after the call.
\<close>

definition addSection ::
  "Epub \<Rightarrow> string \<Rightarrow> string \<Rightarrow> string \<Rightarrow> string \<Rightarrow> (error + string) \<times> Epub" where
  "addSection e body sectionTitle internalFilename internalCSSPath =
     (if internalFilename \<noteq> [] \<and> internalFilename \<in> set (map filename (sections e))
      then (Inl (FilenameAlreadyUsedError internalFilename), e)
      else
        (let name = (if internalFilename = []
                     then generateSectionFilename (sections e) 1
                     else internalFilename);
             x = newXhtml body;
             x = setTitle x sectionTitle;
             x = (if internalCSSPath \<noteq> [] then setCSS x internalCSSPath else x);
             s = \<lparr>filename = name, xhtml = x\<rparr>
         in (Inr name, e\<lparr>sections := sections e @ [s]\<rparr>)))"

definition AddSection ::
  "Epub \<Rightarrow> string \<Rightarrow> string \<Rightarrow> string \<Rightarrow> string \<Rightarrow> (error + string) \<times> Epub" where
  "AddSection e body sectionTitle internalFilename internalCSSPath =
     addSection e body sectionTitle internalFilename internalCSSPath"

subsection \<open>The cover\<close>







subsection \<open>Collaborators to run the operations with\<close>

text \<open>A \<open>checkMedia\<close> that finds every source, and one that finds the files under
  \<open>testdata/\<close> and data URLs only.\<close>

definition everySourceFound :: "string \<Rightarrow> string option" where
  "everySourceFound source = None"

definition testdataFound :: "string \<Rightarrow> string option" where
  "testdataFound source =
     (if take 9 source = ''testdata/'' \<or> take 5 source = ''data:'' then None
      else Some ''no such file or directory'')"

text \<open>For \<open>unicodeToLower\<close>, a function that returns the string as it is. The sources of
  the examples below are ASCII: \<open>ToLower\<close> lower-cases their extensions byte by byte
  and never asks the case tables, so the examples come out the same with any other
  function in its place.\<close>

definition noCaseTables :: "string \<Rightarrow> string" where
  "noCaseTables s = s"

text \<open>A publication holding an auto-named section, a cover page and an explicitly
  named section, in this order.\<close>

definition threeSections :: Epub where
  "threeSections =
     (NewEpub [] ''51b7c9ea-b2a2-49c6-9d8c-522790786d15'' ''My title'')
       \<lparr>sections :=
          [\<lparr>filename = ''section0001.xhtml'', xhtml = newXhtml ''<h1>Section 1</h1>''\<rparr>,
           \<lparr>filename = ''cover.xhtml'', xhtml = newXhtml []\<rparr>,
           \<lparr>filename = ''section0003.xhtml'', xhtml = newXhtml ''<h1>Section 3</h1>''\<rparr>]\<rparr>"











section \<open>Properties of the package document\<close>

lemma decimal_0: "decimal 0 = ''0''"
  by (simp add: decimal.simps)

text \<open>What \<open>updateMeta\<close> computes: the list itself when an equal entry is in it (the
  entry found is overwritten by its equal), the list with \<open>m\<close> appended otherwise.\<close>

lemma indexToReplace_absent: "m \<notin> set a \<Longrightarrow> indexToReplace a m i = - 1"
  by (induction a arbitrary: i) auto

lemma indexToReplace_present:
  "m \<in> set a \<Longrightarrow> 0 \<le> i \<Longrightarrow>
     i \<le> indexToReplace a m i \<and> nat (indexToReplace a m i - i) < length a
     \<and> a ! nat (indexToReplace a m i - i) = m"
proof (induction a arbitrary: i)
  case Nil
  then show ?case by simp
next
  case (Cons x a)
  show ?case
  proof (cases "x = m")
    case True
    then show ?thesis by simp
  next
    case False
    with Cons.prems have "m \<in> set a" by simp
    from Cons.IH [OF this, of "i + 1"] Cons.prems(2)
    have h: "i + 1 \<le> indexToReplace a m (i + 1)"
      "nat (indexToReplace a m (i + 1) - (i + 1)) < length a"
      "a ! nat (indexToReplace a m (i + 1) - (i + 1)) = m" by auto
    have "nat (indexToReplace a m (i + 1) - i) = Suc (nat (indexToReplace a m (i + 1) - (i + 1)))"
      using h(1) by linarith
    then show ?thesis using False h by simp
  qed
qed

lemma updateMeta_eq: "updateMeta a m = (if m \<in> set a then a else a @ [m])"
proof (cases "m \<in> set a")
  case True
  from indexToReplace_present [OF True, of 0]
  have h: "0 \<le> indexToReplace a m 0" "nat (indexToReplace a m 0) < length a"
    "a ! nat (indexToReplace a m 0) = m" by auto
  have ne: "a \<noteq> []" using True by auto
  have same: "a[nat (indexToReplace a m 0) := m] = a"
    using h(3) by (metis list_update_id)
  have "indexToReplace a m 0 \<noteq> - 1" using h(1) by simp
  then show ?thesis using True ne same by (simp add: updateMeta_def Let_def)
next
  case False
  then show ?thesis by (simp add: updateMeta_def Let_def indexToReplace_absent)
qed

text \<open>
  C1. The claim: the meta list holds one entry per (refines, property), a write of an
  entry with the identity of an existing one replaces that entry in place, and two
  calls of \<open>SetModified\<close> leave one \<open>dcterms:modified\<close> entry with the latest value.
  What the code does on a new package, for timestamps one second apart: both entries
  are in the list, the older one first. \<open>updateMeta\<close> looks for an entry equal in all
  fields, so an entry with another timestamp is never found.
\<close>

theorem SetModified_twice_keeps_both:
  "Meta (Metadata (xml (SetModified (SetModified (NewPkg decoded) ''2011-01-01T12:00:00Z'')
                                     ''2011-01-01T12:00:01Z'')))
     = [\<lparr>Refines = [], Property = ''dcterms:modified'', Scheme = [], PkgMeta.ID = [],
          PkgMeta.Data = ''2011-01-01T12:00:00Z'', Name = [], Content = []\<rparr>,
        \<lparr>Refines = [], Property = ''dcterms:modified'', Scheme = [], PkgMeta.ID = [],
          PkgMeta.Data = ''2011-01-01T12:00:01Z'', Name = [], Content = []\<rparr>]"
  by (simp add: SetModified_def NewPkg_def updateMeta_eq PropertyModified_def Let_def)


text \<open>
  C3. The claim: \<open>AddIdentifier\<close> appends an identifier and a meta entry refining its id,
  and the first identifier added carries the id \<open>pub-id\<close> that the package names as its
  unique identifier. What the code does on a new package: the identifier is appended
  with the id \<open>creator0\<close> (the id is built from \<open>pkgCreatorID\<close> and the number of
  creators), the meta entry refines \<open>#creator0\<close>, and the unique-identifier attribute
  stays \<open>pub-id\<close>.
\<close>

theorem AddIdentifier_first_id_is_creator0:
  "Identifier (Metadata (xml (AddIdentifier (NewPkg decoded)
        ''urn:uuid:51b7c9ea-b2a2-49c6-9d8c-522790786d15'' SchemeXSDString
        PropertyIdentifierTypeUUID)))
     = decoded @ [\<lparr>PkgIdentifier.ID = ''creator0'',
                   PkgIdentifier.Data = ''urn:uuid:51b7c9ea-b2a2-49c6-9d8c-522790786d15''\<rparr>]
   \<and> UniqueIdentifier (xml (AddIdentifier (NewPkg decoded)
        ''urn:uuid:51b7c9ea-b2a2-49c6-9d8c-522790786d15'' SchemeXSDString
        PropertyIdentifierTypeUUID)) = ''pub-id''
   \<and> Meta (Metadata (xml (AddIdentifier (NewPkg decoded)
        ''urn:uuid:51b7c9ea-b2a2-49c6-9d8c-522790786d15'' SchemeXSDString
        PropertyIdentifierTypeUUID)))
     = [\<lparr>Refines = ''#creator0'', Property = ''identifier-type'', Scheme = ''xsd:string'',
          PkgMeta.ID = ''creator0'', PkgMeta.Data = ''uuid'', Name = [], Content = []\<rparr>]"
  by (simp add: AddIdentifier_def NewPkg_def updateMeta_eq pkgCreatorID_def decimal_0 Let_def
      PropertyIdentifierType_def SchemeXSDString_def PropertyIdentifierTypeUUID_def)


text \<open>
  C4. The claim: \<open>AddContributor\<close> appends to the contributor sequence, not to the
  creator sequence. What the code does, for every package: the contributor sequence is
  unchanged and the entry is appended to the creator sequence; on a new package
  \<open>AddContributor("Jane Roe", "trl")\<close> leaves no contributor and one creator.
\<close>

theorem AddContributor_appends_creator:
  "Contributor (Metadata (xml (AddContributor p author role))) = Contributor (Metadata (xml p))
   \<and> Creator (Metadata (xml (AddContributor p author role)))
       = Creator (Metadata (xml p)) @
           [\<lparr>PkgCreator.ID = ''creator'' @ decimal (length (Creator (Metadata (xml p)))),
             PkgCreator.Data = author\<rparr>]
   \<and> Contributor (Metadata (xml (AddContributor (NewPkg decoded) ''Jane Roe'' ''trl''))) = []
   \<and> Creator (Metadata (xml (AddContributor (NewPkg decoded) ''Jane Roe'' ''trl'')))
       = [\<lparr>PkgCreator.ID = ''creator0'', PkgCreator.Data = ''Jane Roe''\<rparr>]"
  by (simp add: AddContributor_def NewPkg_def pkgCreatorID_def decimal_0 Let_def)


text \<open>
  C10. \<open>AddIdentifier\<close> gives the new identifier the id \<open>creator\<close> followed by the number
  of creators. So in the publication that \<open>NewEpub\<close> returns the identifier has the id
  \<open>creator0\<close>, the first \<open>AddAuthor\<close> gives the creator the same id \<open>creator0\<close>, and
  the two linked meta entries carry that id and refine \<open>#creator0\<close>.
\<close>

theorem identifier_and_first_author_share_id:
  "Identifier (Metadata (xml (AddIdentifier p identifier typeSchema typeContent)))
     = Identifier (Metadata (xml p)) @
         [\<lparr>PkgIdentifier.ID = ''creator'' @ decimal (length (Creator (Metadata (xml p)))),
           PkgIdentifier.Data = identifier\<rparr>]
   \<and> Identifier (Metadata (xml (AddAuthor (Pkg (NewEpub decoded uuid t)) author role)))
       = decoded @ [\<lparr>PkgIdentifier.ID = ''creator0'',
                     PkgIdentifier.Data = ''urn:uuid:'' @ uuid\<rparr>]
   \<and> Creator (Metadata (xml (AddAuthor (Pkg (NewEpub decoded uuid t)) author role)))
       = [\<lparr>PkgCreator.ID = ''creator0'', PkgCreator.Data = author\<rparr>]
   \<and> Meta (Metadata (xml (AddAuthor (Pkg (NewEpub decoded uuid t)) author role)))
       = [\<lparr>Refines = ''#creator0'', Property = ''identifier-type'', Scheme = ''xsd:string'',
            PkgMeta.ID = ''creator0'', PkgMeta.Data = ''uuid'', Name = [], Content = []\<rparr>,
          \<lparr>Refines = ''#creator0'', Property = ''role'', Scheme = ''marc:relators'',
            PkgMeta.ID = ''creator0'', PkgMeta.Data = role, Name = [], Content = []\<rparr>]"
  by (simp add: AddIdentifier_def AddAuthor_def NewEpub_def NewPkg_def SetTitle_def
      Pkg_SetTitle_def SetLang_def updateMeta_eq pkgCreatorID_def decimal_0 Let_def
      urnUUIDPrefix_def PropertyIdentifierType_def SchemeXSDString_def
      PropertyIdentifierTypeUUID_def PropertyRole_def SchemeMARCRelators_def)

section \<open>Properties of adding resources\<close>

lemma decimal04_small:
  "decimal04 (Suc 0) = ''0001''" "decimal04 (Suc (Suc 0)) = ''0002''"
  "decimal04 (Suc (Suc (Suc 0))) = ''0003''"
  by (simp_all add: decimal04_def decimal.simps numeral_eq_Suc)

lemma splitSlash_no_slash: "CHR ''/'' \<notin> set a \<Longrightarrow> splitSlash a = [a]"
  by (induction a) auto

lemma splitSlash_append:
  "CHR ''/'' \<notin> set a \<Longrightarrow> splitSlash (a @ CHR ''/'' # b) = a # splitSlash b"
  by (induction a) auto


lemma splitSlash_not_Nil: "splitSlash s \<noteq> []"
  by (induction s) auto

lemma splitSlash_no_slash_elems: "el \<in> set (splitSlash s) \<Longrightarrow> CHR ''/'' \<notin> set el"
proof (induction s arbitrary: el)
  case Nil
  then show ?case by simp
next
  case (Cons c cs)
  show ?case
  proof (cases "c = CHR ''/''")
    case True
    then show ?thesis using Cons by auto
  next
    case False
    obtain h t where ht: "splitSlash cs = h # t"
      using splitSlash_not_Nil [of cs] by (cases "splitSlash cs") auto
    then show ?thesis using Cons False by auto
  qed
qed

lemma joinSlash_Cons: "es \<noteq> [] \<Longrightarrow> joinSlash (e # es) = e @ CHR ''/'' # joinSlash es"
  by (cases es) simp_all

lemma joinSlash_splitSlash: "joinSlash (splitSlash s) = s"
proof (induction s)
  case Nil
  then show ?case by simp
next
  case (Cons c cs)
  obtain h t where ht: "splitSlash cs = h # t"
    using splitSlash_not_Nil [of cs] by (cases "splitSlash cs") auto
  show ?case
  proof (cases "c = CHR ''/''")
    case True
    then show ?thesis using Cons splitSlash_not_Nil [of cs] by (simp add: joinSlash_Cons)
  next
    case False
    then show ?thesis using Cons ht by (cases t) simp_all
  qed
qed

lemma splitSlash_joinSlash:
  "es \<noteq> [] \<Longrightarrow> \<forall>el\<in>set es. CHR ''/'' \<notin> set el \<Longrightarrow> splitSlash (joinSlash es) = es"
proof (induction es)
  case Nil
  then show ?case by simp
next
  case (Cons e es)
  show ?case
  proof (cases "es = []")
    case True
    then show ?thesis using Cons.prems by (simp add: splitSlash_no_slash)
  next
    case False
    then show ?thesis using Cons by (simp add: joinSlash_Cons splitSlash_append)
  qed
qed

text \<open>Cleaning elements that are all plain writes them all.\<close>

lemma cleanElems_plain:
  "list_all plainElem es \<Longrightarrow> cleanElems rooted es out = rev out @ es"
  by (induction es arbitrary: out) (auto simp add: plainElem_def)

text \<open>What is written never holds an empty element or a dot, and no slash.\<close>

lemma cleanElems_written:
  "list_all writtenElem out \<Longrightarrow> list_all (\<lambda>el. CHR ''/'' \<notin> set el) es \<Longrightarrow>
   list_all writtenElem (cleanElems rooted es out)"
proof (induction es arbitrary: out)
  case Nil
  then show ?case by simp
next
  case (Cons e es)
  have es: "list_all (\<lambda>el. CHR ''/'' \<notin> set el) es" and e: "CHR ''/'' \<notin> set e"
    using Cons.prems(2) by simp_all
  have dots: "writtenElem ''..''" by (simp add: writtenElem_def)
  show ?case
  proof (cases "e = [] \<or> e = ''.''")
    case True
    then have "cleanElems rooted (e # es) out = cleanElems rooted es out" by auto
    then show ?thesis using Cons.IH [OF Cons.prems(1) es] by simp
  next
    case False
    show ?thesis
    proof (cases "e = ''..''")
      case True
      show ?thesis
      proof (cases out)
        case Nil
        have a: "list_all writtenElem []" "list_all writtenElem [''..'']"
          using dots by simp_all
        show ?thesis
          using True Nil Cons.IH [OF a(1) es] Cons.IH [OF a(2) es] by (cases rooted) simp_all
      next
        case c: (Cons w below)
        have a: "list_all writtenElem (''..'' # out)" "list_all writtenElem below"
          using dots Cons.prems(1) c by simp_all
        show ?thesis
          using True c Cons.IH [OF a(1) es] Cons.IH [OF a(2) es]
          by (cases "w = ''..''") simp_all
      qed
    next
      case ne: False
      have "writtenElem e" using False e by (simp add: writtenElem_def)
      then have a: "list_all writtenElem (e # out)"
        using Cons.prems(1) by simp
      have "cleanElems rooted (e # es) out = cleanElems rooted es (e # out)"
        using False ne by simp
      then show ?thesis using Cons.IH [OF a es] by simp
    qed
  qed
qed

text \<open>In a path that is not rooted, the \<open>..\<close> elements written come first.\<close>

lemma cleanElems_dotsBelow:
  "dotsBelow out \<Longrightarrow> dotsBelow (rev (cleanElems False es out))"
proof (induction es arbitrary: out)
  case Nil
  then show ?case by simp
next
  case (Cons e es)
  show ?case
  proof (cases "e = [] \<or> e = ''.''")
    case True
    then show ?thesis using Cons by auto
  next
    case False
    show ?thesis
    proof (cases "e = ''..''")
      case True
      show ?thesis
      proof (cases out)
        case Nil
        have "dotsBelow [''..'']" by (simp add: dotsBelow_def)
        then show ?thesis using True Nil Cons.IH [of "[''..'']"] by simp
      next
        case c: (Cons w below)
        show ?thesis
        proof (cases "w = ''..''")
          case w: True
          have "dotsBelow (''..'' # out)" using Cons.prems c w by (simp add: dotsBelow_def)
          then show ?thesis using True c w Cons.IH [of "''..'' # out"] by simp
        next
          case w: False
          have "dotsBelow below" using Cons.prems c w by (simp add: dotsBelow_def)
          then show ?thesis using True c w Cons.IH [of below] by simp
        qed
      qed
    next
      case ne: False
      have "dotsBelow (e # out)" using Cons.prems ne by (simp add: dotsBelow_def)
      then show ?thesis using False ne Cons.IH [of "e # out"] by simp
    qed
  qed
qed

lemma dotsBelow_no_dots:
  assumes "dotsBelow (rev els @ [f, ''..''])" "f \<noteq> ''..''"
  shows "''..'' \<notin> set els"
proof
  assume "''..'' \<in> set els"
  then have "''..'' \<in> set (rev els)" by simp
  then obtain a b where ab: "rev els = a @ ''..'' # b" "''..'' \<notin> set a"
    by (meson split_list_first)
  have "\<forall>x\<in>set a. x \<noteq> ''..''" using ab(2) by blast
  then have "dropWhile (\<lambda>el. el \<noteq> ''..'') (rev els @ [f, ''..'']) = ''..'' # b @ [f, ''..'']"
    using ab(1) by (simp add: dropWhile_append3)
  then show False using assms by (simp add: dotsBelow_def)
qed

lemma Join_folder:
  assumes f: "CHR ''/'' \<notin> set f" "plainElem f"
  shows "(Join [''..'', f, n] = ''../'' @ f @ ''/'' @ n) = list_all plainElem (splitSlash n)"
proof -
  let ?els = "splitSlash n"
  have split: "splitSlash (''../'' @ f @ ''/'' @ n) = ''..'' # f # ?els"
    using splitSlash_append [of "''..''" "f @ CHR ''/'' # n"] splitSlash_append [of f n] f(1)
    by simp
  have fne: "f \<noteq> []" "f \<noteq> ''.''" "f \<noteq> ''..''" using f(2) by (simp_all add: plainElem_def)
  let ?out = "cleanElems False ?els [f, ''..'']"
  have run: "cleanElems False (''..'' # f # ?els) [] = ?out"
    using fne by simp
  have join: "Join [''..'', f, n] = (if ?out = [] then ''.'' else joinSlash ?out)"
    using split run by (simp add: Join_def Clean_def Let_def)
  show ?thesis
  proof
    assume plain: "list_all plainElem ?els"
    have "?out = [''..'', f] @ ?els" using cleanElems_plain [OF plain] by simp
    then have "Join [''..'', f, n] = joinSlash (''..'' # f # ?els)" using join by simp
    also have "\<dots> = ''../'' @ f @ ''/'' @ joinSlash ?els"
      using splitSlash_not_Nil [of n] by (simp add: joinSlash_Cons)
    finally show "Join [''..'', f, n] = ''../'' @ f @ ''/'' @ n"
      by (simp add: joinSlash_splitSlash)
  next
    assume eq: "Join [''..'', f, n] = ''../'' @ f @ ''/'' @ n"
    have "list_all writtenElem [f, ''..'']" using f(1) fne by (simp add: writtenElem_def)
    moreover have "list_all (\<lambda>el. CHR ''/'' \<notin> set el) ?els"
      using splitSlash_no_slash_elems [of _ n] by (simp add: list_all_iff)
    ultimately have written: "list_all writtenElem ?out" by (rule cleanElems_written)
    have ne: "?out \<noteq> []"
    proof
      assume "?out = []"
      then show False using eq join by simp
    qed
    then have "joinSlash ?out = ''../'' @ f @ ''/'' @ n" using eq join by simp
    then have "splitSlash (joinSlash ?out) = ''..'' # f # ?els" using split by simp
    moreover have "\<forall>el\<in>set ?out. CHR ''/'' \<notin> set el"
      using written by (simp add: list_all_iff writtenElem_def)
    ultimately have out: "?out = ''..'' # f # ?els"
      using splitSlash_joinSlash [OF ne] by simp
    have "dotsBelow [f, ''..'']" using fne by (simp add: dotsBelow_def)
    then have "dotsBelow (rev ?out)" by (rule cleanElems_dotsBelow)
    then have "dotsBelow (rev ?els @ [f, ''..''])" using out by simp
    then have nodots: "''..'' \<notin> set ?els" using fne(3) by (rule dotsBelow_no_dots)
    have "list_all writtenElem ?els" using written out by simp
    then show "list_all plainElem ?els"
      using nodots by (auto simp add: list_all_iff plainElem_def writtenElem_def)
  qed
qed

text \<open>
  C5. When \<open>checkMedia\<close> returns an error for the source, \<open>addMedia\<close> returns
  \<open>FileRetrievalError\<close> with the source and that error, and the map is the one passed
  in: nothing was registered, added, removed or changed.
\<close>

theorem addMedia_retrieval_failure:
  "checkMedia source = Some err \<Longrightarrow>
     addMedia checkMedia unicodeToLower source internalFilename mediaFileFormat mediaFolderName mediaMap
       = (Inl (FileRetrievalError source err), mediaMap)"
  by (simp add: addMedia_def)

theorem addMedia_retrieval_failure_witness:
  "testdataFound ''/sbin/thisShouldFail'' = Some ''no such file or directory''
   \<and> addMedia testdataFound noCaseTables ''/sbin/thisShouldFail'' ''cover.css'' cssFileFormat CSSFolderName
        (fmupd ''font.css'' ''testdata/font.css'' fmempty)
       = (Inl (FileRetrievalError ''/sbin/thisShouldFail'' ''no such file or directory''),
          fmupd ''font.css'' ''testdata/font.css'' fmempty)"
proof -
  have h: "testdataFound ''/sbin/thisShouldFail'' = Some ''no such file or directory''"
    by (simp add: testdataFound_def)
  show ?thesis
    using h addMedia_retrieval_failure [of testdataFound "''/sbin/thisShouldFail''"
        "''no such file or directory''" noCaseTables "''cover.css''" cssFileFormat CSSFolderName
        "fmupd ''font.css'' ''testdata/font.css'' fmempty"]
    by simp
qed

text \<open>
  C7, as stated: with a non-empty requested filename that is a key of the map,
  \<open>addMedia\<close> fails with \<open>FilenameAlreadyUsedError\<close>. It does not when the source cannot
  be retrieved: the source is checked first, and the call fails with
  \<open>FileRetrievalError\<close> (the map still unchanged).
\<close>

theorem addMedia_used_filename_unretrievable_source:
  "fmlookup (fmupd ''cover.css'' ''testdata/cover.css'' fmempty) ''cover.css''
     = Some ''testdata/cover.css''
   \<and> addMedia testdataFound noCaseTables ''/sbin/thisShouldFail'' ''cover.css'' cssFileFormat CSSFolderName
        (fmupd ''cover.css'' ''testdata/cover.css'' fmempty)
       = (Inl (FileRetrievalError ''/sbin/thisShouldFail'' ''no such file or directory''),
          fmupd ''cover.css'' ''testdata/cover.css'' fmempty)
   \<and> fst (addMedia testdataFound noCaseTables ''/sbin/thisShouldFail'' ''cover.css'' cssFileFormat
            CSSFolderName (fmupd ''cover.css'' ''testdata/cover.css'' fmempty))
       \<noteq> Inl (FilenameAlreadyUsedError ''cover.css'')"
  by (simp add: addMedia_def testdataFound_def)

text \<open>
  C7, amended: when the source is found retrievable, the requested filename is not
  empty and is a key of the map, \<open>addMedia\<close> fails with \<open>FilenameAlreadyUsedError\<close>
  carrying that filename, and the map is the one passed in, so the filename still maps
  to the first source.
\<close>

theorem addMedia_filename_already_used:
  assumes "checkMedia source = None"
      and "internalFilename \<noteq> []"
      and "fmlookup mediaMap internalFilename = Some first"
  shows "addMedia checkMedia unicodeToLower source internalFilename mediaFileFormat mediaFolderName mediaMap
           = (Inl (FilenameAlreadyUsedError internalFilename), mediaMap)
         \<and> fmlookup (snd (addMedia checkMedia unicodeToLower source internalFilename mediaFileFormat
                            mediaFolderName mediaMap)) internalFilename = Some first"
  using assms by (simp add: addMedia_def internalFilenameFor_def)

theorem addMedia_filename_already_used_witness:
  "testdataFound ''testdata/other.css'' = None \<and> ''cover.css'' \<noteq> []
   \<and> fmlookup (fmupd ''cover.css'' ''testdata/cover.css'' fmempty) ''cover.css''
       = Some ''testdata/cover.css''
   \<and> addMedia testdataFound noCaseTables ''testdata/other.css'' ''cover.css'' cssFileFormat CSSFolderName
        (fmupd ''cover.css'' ''testdata/cover.css'' fmempty)
       = (Inl (FilenameAlreadyUsedError ''cover.css''),
          fmupd ''cover.css'' ''testdata/cover.css'' fmempty)
   \<and> fmlookup (snd (addMedia testdataFound noCaseTables ''testdata/other.css'' ''cover.css'' cssFileFormat
          CSSFolderName (fmupd ''cover.css'' ''testdata/cover.css'' fmempty))) ''cover.css''
       = Some ''testdata/cover.css''"
proof -
  have h1: "testdataFound ''testdata/other.css'' = None" by (simp add: testdataFound_def)
  have h2: "''cover.css'' \<noteq> []" by simp
  have h3: "fmlookup (fmupd ''cover.css'' ''testdata/cover.css'' fmempty) ''cover.css''
       = Some ''testdata/cover.css''" by simp
  show ?thesis
    using h1 h3 addMedia_filename_already_used [of testdataFound "''testdata/other.css''"
        "''cover.css''" "fmupd ''cover.css'' ''testdata/cover.css'' fmempty"
        "''testdata/cover.css''" noCaseTables cssFileFormat CSSFolderName]
    by simp
qed

text \<open>
  C8, as stated: the string returned on success is exactly
  \<open>"../" + folder + "/" + internalFilename\<close>. It is the result of \<open>path.Join\<close>, which
  cleans the path: a CSS file added under the name \<open>./cover.css\<close> is registered under
  that name and the path returned is \<open>../css/cover.css\<close>.
\<close>

theorem addMedia_unclean_filename_path:
  "addMedia everySourceFound noCaseTables ''testdata/cover.css'' ''./cover.css'' cssFileFormat CSSFolderName
        fmempty
     = (Inr ''../css/cover.css'', fmupd ''./cover.css'' ''testdata/cover.css'' fmempty)
   \<and> ''../css/cover.css'' \<noteq> ''../'' @ CSSFolderName @ ''/'' @ ''./cover.css''"
  by (simp add: addMedia_def everySourceFound_def internalFilenameFor_def Join_def Clean_def
      CSSFolderName_def)

text \<open>
  C8, amended: after a successful \<open>addMedia\<close> into one of the four folders the map is
  the old one with the resolved internal filename mapped to the source, and the
  string returned is \<open>path.Join("..", folder, internalFilename)\<close>; that is exactly
  \<open>"../" + folder + "/" + internalFilename\<close> if and only if no element of the internal
  filename (the pieces between its slashes) is empty, \<open>.\<close> or \<open>..\<close>.
\<close>

theorem addMedia_success:
  assumes ok: "addMedia checkMedia unicodeToLower source internalFilename mediaFileFormat
                 mediaFolderName mediaMap = (Inr p, m')"
      and folder: "mediaFolderName = CSSFolderName \<or> mediaFolderName = FontFolderName
                   \<or> mediaFolderName = ImageFolderName \<or> mediaFolderName = VideoFolderName"
  shows "m' = fmupd (internalFilenameFor unicodeToLower source internalFilename
                       mediaFileFormat mediaMap) source mediaMap
         \<and> fmlookup m' (internalFilenameFor unicodeToLower source internalFilename
                          mediaFileFormat mediaMap) = Some source
         \<and> p = Join [''..'', mediaFolderName,
                      internalFilenameFor unicodeToLower source internalFilename
                        mediaFileFormat mediaMap]
         \<and> ((p = ''../'' @ mediaFolderName @ ''/'' @
                    internalFilenameFor unicodeToLower source internalFilename
                      mediaFileFormat mediaMap)
              = list_all plainElem
                  (splitSlash (internalFilenameFor unicodeToLower source internalFilename
                                 mediaFileFormat mediaMap)))"
proof -
  let ?name = "internalFilenameFor unicodeToLower source internalFilename mediaFileFormat
                 mediaMap"
  from ok have m: "m' = fmupd ?name source mediaMap"
    and p: "p = Join [''..'', mediaFolderName, ?name]"
    by (auto simp: addMedia_def Let_def split: option.splits if_splits)
  have f: "CHR ''/'' \<notin> set mediaFolderName" "plainElem mediaFolderName"
    using folder
    by (auto simp: CSSFolderName_def FontFolderName_def ImageFolderName_def
        VideoFolderName_def plainElem_def)
  have "(p = ''../'' @ mediaFolderName @ ''/'' @ ?name) = list_all plainElem (splitSlash ?name)"
    using Join_folder [OF f, of ?name] p by simp
  then show ?thesis using m p by simp
qed

theorem addMedia_success_witness:
  "addMedia testdataFound noCaseTables ''testdata/gophercolor16x16.png'' [] imageFileFormat ImageFolderName
      (fmupd ''gophercolor16x16.png'' ''testdata/gophercolor16x16.png'' fmempty)
     = (Inr ''../images/image0002.png'',
        fmupd ''image0002.png'' ''testdata/gophercolor16x16.png''
          (fmupd ''gophercolor16x16.png'' ''testdata/gophercolor16x16.png'' fmempty))
   \<and> fmlookup (fmupd ''image0002.png'' ''testdata/gophercolor16x16.png''
          (fmupd ''gophercolor16x16.png'' ''testdata/gophercolor16x16.png'' fmempty))
        ''image0002.png'' = Some ''testdata/gophercolor16x16.png''"
proof -
  let ?m = "fmupd ''gophercolor16x16.png'' ''testdata/gophercolor16x16.png'' fmempty"
  have name: "internalFilenameFor noCaseTables ''testdata/gophercolor16x16.png'' [] imageFileFormat ?m
                = ''image0002.png''"
    by (simp add: internalFilenameFor_def Base_def Ext_def ToLower_def imageFileFormat_def
        fcard_finsert_if fcard_fempty decimal04_small)
  have run: "addMedia testdataFound noCaseTables ''testdata/gophercolor16x16.png'' [] imageFileFormat
               ImageFolderName ?m
             = (Inr (Join [''..'', ImageFolderName, ''image0002.png'']),
                fmupd ''image0002.png'' ''testdata/gophercolor16x16.png'' ?m)"
    by (simp add: addMedia_def testdataFound_def name Let_def)
  have folder: "ImageFolderName = CSSFolderName \<or> ImageFolderName = FontFolderName
                   \<or> ImageFolderName = ImageFolderName \<or> ImageFolderName = VideoFolderName"
    by simp
  show ?thesis
    using addMedia_success [OF run folder] run
    by (simp add: name ImageFolderName_def plainElem_def)
qed

text \<open>
  C2. The claim: with an empty requested filename \<open>addMedia\<close> never fails with
  \<open>FilenameAlreadyUsedError\<close>. What the code does after
  \<open>AddImage("testdata/a.png", "image0003.png")\<close> and
  \<open>AddImage("testdata/gophercolor16x16.png", "")\<close>, when the second call is repeated: the
  base name is taken, the generated name is numbered by the size of the map plus one,
  \<open>image0003.png\<close>, which is taken too, and the call fails with
  \<open>FilenameAlreadyUsedError\<close>.
\<close>

theorem addMedia_generated_name_taken:
  "addMedia everySourceFound noCaseTables ''testdata/gophercolor16x16.png'' [] imageFileFormat ImageFolderName
      (fmupd ''gophercolor16x16.png'' ''testdata/gophercolor16x16.png''
        (fmupd ''image0003.png'' ''testdata/a.png'' fmempty))
     = (Inl (FilenameAlreadyUsedError ''image0003.png''),
        fmupd ''gophercolor16x16.png'' ''testdata/gophercolor16x16.png''
          (fmupd ''image0003.png'' ''testdata/a.png'' fmempty))"
proof -
  have name: "internalFilenameFor noCaseTables ''testdata/gophercolor16x16.png'' [] imageFileFormat
      (fmupd ''gophercolor16x16.png'' ''testdata/gophercolor16x16.png''
        (fmupd ''image0003.png'' ''testdata/a.png'' fmempty)) = ''image0003.png''"
    by (simp add: internalFilenameFor_def Base_def Ext_def ToLower_def imageFileFormat_def
        fcard_finsert_if fcard_fempty decimal04_small)
  show ?thesis
    by (simp add: addMedia_def everySourceFound_def name Let_def)
qed

section \<open>Properties of adding sections\<close>

text \<open>The loop returns the name of the first index, from the one it starts at, whose
  name no section has.\<close>

lemma generateSectionFilename_first_free:
  "\<exists>k\<ge>index. generateSectionFilename ss index = sectionFileFormat k
       \<and> sectionFileFormat k \<notin> set (map filename ss)
       \<and> (\<forall>j. index \<le> j \<and> j < k \<longrightarrow> sectionFileFormat j \<in> set (map filename ss))"
proof (induction ss index rule: generateSectionFilename.induct)
  case (1 ss index)
  show ?case
  proof (cases "sectionFileFormat index \<in> set (map filename ss)")
    case True
    from "1.IH" [OF refl True] obtain k where k: "index + 1 \<le> k"
      "generateSectionFilename ss (index + 1) = sectionFileFormat k"
      "sectionFileFormat k \<notin> set (map filename ss)"
      "\<forall>j. index + 1 \<le> j \<and> j < k \<longrightarrow> sectionFileFormat j \<in> set (map filename ss)"
      by blast
    have run: "generateSectionFilename ss index = sectionFileFormat k"
      using True k(2) by (subst generateSectionFilename.simps) (simp add: Let_def)
    have below: "sectionFileFormat j \<in> set (map filename ss)" if "index \<le> j" "j < k" for j
    proof (cases "j = index")
      case True
      then show ?thesis using \<open>sectionFileFormat index \<in> set (map filename ss)\<close> by simp
    next
      case False
      then have "index + 1 \<le> j" using that(1) by simp
      then show ?thesis using k(4) that(2) by blast
    qed
    have "index \<le> k" using k(1) by simp
    then show ?thesis using run k(3) below by blast
  next
    case False
    have "generateSectionFilename ss index = sectionFileFormat index"
      using False by (subst generateSectionFilename.simps) (simp add: Let_def)
    then show ?thesis using False by auto
  qed
qed

text \<open>
  C6. With an empty requested filename \<open>addSection\<close> succeeds: it returns
  \<open>section%04d.xhtml\<close> for the smallest index from 1 on whose name is not the filename of
  any section, and appends the section under that name. So it does not fail with
  \<open>FilenameAlreadyUsedError\<close> and the name differs from every filename that was there,
  whatever the order in which generated, explicit and cover filenames came.
\<close>

theorem addSection_generates_first_free_name:
  "\<exists>k\<ge>1. addSection e body sectionTitle [] internalCSSPath
             = (Inr (sectionFileFormat k),
                e\<lparr>sections := sections e @
                   [\<lparr>filename = sectionFileFormat k,
                     xhtml = (if internalCSSPath \<noteq> []
                              then setCSS (setTitle (newXhtml body) sectionTitle) internalCSSPath
                              else setTitle (newXhtml body) sectionTitle)\<rparr>]\<rparr>)
        \<and> sectionFileFormat k \<notin> set (map filename (sections e))
        \<and> (\<forall>j. 1 \<le> j \<and> j < k \<longrightarrow> sectionFileFormat j \<in> set (map filename (sections e)))"
proof -
  from generateSectionFilename_first_free [of 1 "sections e"]
  obtain k where k: "1 \<le> k" "generateSectionFilename (sections e) 1 = sectionFileFormat k"
    "sectionFileFormat k \<notin> set (map filename (sections e))"
    "\<forall>j. 1 \<le> j \<and> j < k \<longrightarrow> sectionFileFormat j \<in> set (map filename (sections e))"
    by blast
  have "addSection e body sectionTitle [] internalCSSPath
          = (Inr (sectionFileFormat k),
             e\<lparr>sections := sections e @
                [\<lparr>filename = sectionFileFormat k,
                  xhtml = (if internalCSSPath \<noteq> []
                           then setCSS (setTitle (newXhtml body) sectionTitle) internalCSSPath
                           else setTitle (newXhtml body) sectionTitle)\<rparr>]\<rparr>)"
    using k(2) by (simp add: addSection_def Let_def)
  then show ?thesis using k(1,3,4) by blast
qed

lemma sectionFileFormat_small:
  "sectionFileFormat (Suc 0) = ''section0001.xhtml''"
  "sectionFileFormat (Suc (Suc 0)) = ''section0002.xhtml''"
  by (simp_all add: sectionFileFormat_def decimal04_small)

theorem addSection_generates_first_free_name_witness:
  "addSection threeSections ''<h1>X</h1>'' [] [] []
     = (Inr ''section0002.xhtml'',
        threeSections\<lparr>sections := sections threeSections @
          [\<lparr>filename = ''section0002.xhtml'',
            xhtml = \<lparr>bodyMarkup = ''<h1>X</h1>'', title = [], stylesheetPath = []\<rparr>\<rparr>]\<rparr>)"
proof -
  have names: "map filename (sections threeSections)
                 = [''section0001.xhtml'', ''cover.xhtml'', ''section0003.xhtml'']"
    by (simp add: threeSections_def)
  from addSection_generates_first_free_name [of threeSections "''<h1>X</h1>''" "[]" "[]"]
  obtain k where k: "1 \<le> k"
    "addSection threeSections ''<h1>X</h1>'' [] []  []
       = (Inr (sectionFileFormat k),
          threeSections\<lparr>sections := sections threeSections @
             [\<lparr>filename = sectionFileFormat k, xhtml = setTitle (newXhtml ''<h1>X</h1>'') []\<rparr>]\<rparr>)"
    "sectionFileFormat k \<notin> set (map filename (sections threeSections))"
    "\<forall>j. 1 \<le> j \<and> j < k \<longrightarrow> sectionFileFormat j \<in> set (map filename (sections threeSections))"
    by auto
  have "k \<noteq> 1" using k(3) by (auto simp: names sectionFileFormat_small)
  moreover have "\<not> 2 < k"
  proof
    assume "2 < k"
    then have "sectionFileFormat 2 \<in> set (map filename (sections threeSections))"
      using k(4) by simp
    then show False
      using sectionFileFormat_small(2) by (simp add: names numeral_2_eq_2)
  qed
  ultimately have "k = Suc (Suc 0)" using k(1) by simp
  then show ?thesis using k(2) by (simp add: sectionFileFormat_small setTitle_def newXhtml_def)
qed

section \<open>Properties of the cover\<close>

















































end
